theory Spec2Isabelle
  imports Complex_Main "HOL-Library.Sublist"
begin

section \<open>Conventions\<close>

text \<open>
  The development embeds the research agent of \<^verbatim>\<open>app/agent/graph.py\<close> and the
  evaluation engine of \<^verbatim>\<open>app/trading-engine/backtester.py\<close>, \<^verbatim>\<open>features.py\<close> and
  \<^verbatim>\<open>data.py\<close>. Python \<^verbatim>\<open>int\<close> is \<^typ>\<open>int\<close>; Python \<^verbatim>\<open>float\<close> is \<^typ>\<open>real\<close>
  (rounding is not modelled), with NaN written \<^term>\<open>None\<close> where a cell can hold it;
  \<^verbatim>\<open>str\<close> is \<^typ>\<open>string\<close>. An exception is a value \<open>Inl e\<close> of the result type.
  Collaborators that are libraries or services (the chat model, the tool executor, the
  exchange, the classifier, the portfolio simulator) are parameters of the functions
  that call them.
\<close>

datatype error =
    IndexError
  | KeyError string
  | ValueError string
  | ExternalError string

section \<open>Python strings\<close>

text \<open>\<^verbatim>\<open>s.find(sep)\<close>: the position of the first occurrence, \<open>None\<close> for \<^verbatim>\<open>-1\<close>.\<close>

fun find_sub :: "string \<Rightarrow> string \<Rightarrow> nat option" where
  "find_sub sep [] = (if sep = [] then Some 0 else None)"
| "find_sub sep (c # cs) =
     (if prefix sep (c # cs) then Some 0 else map_option Suc (find_sub sep cs))"

text \<open>\<^verbatim>\<open>sep in s\<close> on strings.\<close>

definition contains :: "string \<Rightarrow> string \<Rightarrow> bool" where
  "contains sep s = (find_sub sep s \<noteq> None)"

text \<open>
  \<^verbatim>\<open>s.split(sep)\<close> for a separator that is not empty: occurrences are taken from the
  left and do not overlap. Python raises \<^verbatim>\<open>ValueError\<close> on an empty separator.
\<close>

function split_ne :: "string \<Rightarrow> string \<Rightarrow> string list" where
  "split_ne sep s =
     (if sep = [] then [s]
      else case find_sub sep s of
             None \<Rightarrow> [s]
           | Some i \<Rightarrow> take i s # split_ne sep (drop (i + length sep) s))"
  by pat_completeness auto
termination
proof (relation "measure (\<lambda>(sep, s). length s)")
  show "wf (measure (\<lambda>(sep, s). length s))" by simp
next
  fix sep s :: string and i :: nat
  assume "sep \<noteq> []" and "find_sub sep s = Some i"
  then have "s \<noteq> []" by (cases s) auto
  with \<open>sep \<noteq> []\<close> show "((sep, drop (i + length sep) s), (sep, s)) \<in> measure (\<lambda>(sep, s). length s)"
    by (cases s) auto
qed

declare split_ne.simps [simp del]

definition py_split :: "string \<Rightarrow> string \<Rightarrow> error + string list" where
  "py_split sep s =
     (if sep = [] then Inl (ValueError ''empty separator'') else Inr (split_ne sep s))"

text \<open>\<^verbatim>\<open>xs[i]\<close> for \<open>i \<ge> 0\<close>.\<close>

definition py_index :: "'a list \<Rightarrow> nat \<Rightarrow> error + 'a" where
  "py_index xs i = (if i < length xs then Inr (xs ! i) else Inl IndexError)"

text \<open>\<^verbatim>\<open>xs[-1]\<close>.\<close>

definition py_last :: "'a list \<Rightarrow> error + 'a" where
  "py_last xs = (if xs = [] then Inl IndexError else Inr (last xs))"

text \<open>
  \<^verbatim>\<open>str.isspace\<close> on one character, for code points below 256: tab, line feed,
  vertical tab, form feed, carriage return, the separators \<^verbatim>\<open>0x1c\<close> to \<^verbatim>\<open>0x1f\<close>,
  space, \<^verbatim>\<open>0x85\<close> and \<^verbatim>\<open>0xa0\<close>.
\<close>

definition is_space :: "char \<Rightarrow> bool" where
  "is_space c =
     (let n = of_char c :: nat
      in (9 \<le> n \<and> n \<le> 13) \<or> (28 \<le> n \<and> n \<le> 32) \<or> n = 133 \<or> n = 160)"

text \<open>\<^verbatim>\<open>s.strip()\<close>.\<close>

definition strip :: "string \<Rightarrow> string" where
  "strip s = rev (dropWhile is_space (rev (dropWhile is_space s)))"

text \<open>\<^verbatim>\<open>sep.join(xs)\<close>.\<close>

fun join :: "string \<Rightarrow> string list \<Rightarrow> string" where
  "join sep [] = []"
| "join sep [x] = x"
| "join sep (x # y # ys) = x @ sep @ join sep (y # ys)"

text \<open>\<^verbatim>\<open>str(n)\<close> for an integer.\<close>

fun digits_of :: "nat \<Rightarrow> string" where
  "digits_of n =
     (if n < 10 then [char_of (48 + n)]
      else digits_of (n div 10) @ [char_of (48 + n mod 10)])"

declare digits_of.simps [simp del]

definition str_int :: "int \<Rightarrow> string" where
  "str_int i = (if i < 0 then CHR ''-'' # digits_of (nat (- i)) else digits_of (nat i))"

text \<open>
  \<^verbatim>\<open>list(set(xs))\<close>: the elements of \<open>xs\<close>, each once. Python fixes no order for
  the result, so only \<^term>\<open>set (list_of_set xs)\<close> and its distinctness are meaningful.
\<close>

definition list_of_set :: "'a list \<Rightarrow> 'a list" where
  "list_of_set xs = remdups xs"

text \<open>Sequencing of computations that may raise.\<close>

definition thenE :: "error + 'a \<Rightarrow> ('a \<Rightarrow> error + 'b) \<Rightarrow> error + 'b" where
  "thenE m f = (case m of Inl e \<Rightarrow> Inl e | Inr x \<Rightarrow> f x)"

section \<open>The research agent (graph.py)\<close>

datatype role = System | Human | AI | Tool

record tool_call =
  tc_name :: string
  tc_args :: "(string \<times> string) list"

text \<open>
  A conversation turn. \<open>content\<close> and \<open>tool_calls\<close> are \<open>None\<close> when the message
  object has no such attribute (\<^verbatim>\<open>hasattr\<close> is false).
\<close>

record message =
  role :: role
  content :: "string option"
  tool_calls :: "tool_call list option"

definition SystemMessage :: "string \<Rightarrow> message" where
  "SystemMessage c = \<lparr>role = System, content = Some c, tool_calls = None\<rparr>"

definition HumanMessage :: "string \<Rightarrow> message" where
  "HumanMessage c = \<lparr>role = Human, content = Some c, tool_calls = None\<rparr>"

text \<open>
  \<^verbatim>\<open>ResearchState\<close>. \<open>should_continue\<close> is \<open>None\<close> when the key is absent from the
  dictionary; \<open>last_backtest_result\<close> is a dictionary of printed values.
\<close>

record research_state =
  messages :: "message list"
  cycle_id :: string
  cycle_count :: int
  features_ruled_in :: "string list"
  features_ruled_out :: "string list"
  promoted_strategies :: "string list"
  current_hypothesis :: string
  last_backtest_result :: "(string \<times> string) list option"
  should_continue :: "bool option"

text \<open>\<^verbatim>\<open>x or default\<close> on strings.\<close>

definition or_str :: "string \<Rightarrow> string \<Rightarrow> string" where
  "or_str x d = (if x = [] then d else x)"

text \<open>The printed form of a dictionary of printed values.\<close>

definition str_dict :: "(string \<times> string) list \<Rightarrow> string" where
  "str_dict d =
     ''{'' @ join '', '' (map (\<lambda>(k, v). [CHR 0x27] @ k @ [CHR 0x27] @ '': '' @ v) d) @ ''}''"

text \<open>The context message; the dash of the source's text is written as a hyphen.\<close>

definition build_context :: "research_state \<Rightarrow> string" where
  "build_context state =
     [CHR 0x0A] @ ''RESEARCH CYCLE: '' @ str_int (cycle_count state + 1) @ [CHR 0x0A]
     @ ''CYCLE ID: '' @ cycle_id state @ [CHR 0x0A, CHR 0x0A]
     @ ''FEATURES RULED IN SO FAR: ''
     @ or_str (join '', '' (features_ruled_in state)) ''None yet'' @ [CHR 0x0A]
     @ ''FEATURES RULED OUT SO FAR: ''
     @ or_str (join '', '' (features_ruled_out state)) ''None yet'' @ [CHR 0x0A]
     @ ''PROMOTED STRATEGIES: ''
     @ or_str (join '', '' (promoted_strategies state)) ''None yet'' @ [CHR 0x0A]
     @ ''CURRENT HYPOTHESIS: ''
     @ or_str (current_hypothesis state) ''None - start fresh'' @ [CHR 0x0A]
     @ ''LAST BACKTEST: ''
     @ (case last_backtest_result state of
          None \<Rightarrow> ''No backtest run yet''
        | Some d \<Rightarrow> if d = [] then ''No backtest run yet'' else str_dict d)
     @ [CHR 0x0A, CHR 0x0A]
     @ ''Begin the research cycle. Follow the process in your system prompt.''
     @ [CHR 0x0A]"

text \<open>
  \<^verbatim>\<open>orchestrator_node\<close>. \<open>prompt\<close> is \<^verbatim>\<open>ORCHESTRATOR_SYSTEM_PROMPT\<close> and \<open>llm\<close> is
  \<^verbatim>\<open>llm.invoke\<close>; a failure of the call is not caught. The value returned is the
  node's update: its \<open>messages\<close> entry holds the response alone.
\<close>

definition orchestrator_node ::
  "string \<Rightarrow> (message list \<Rightarrow> error + message) \<Rightarrow> research_state \<Rightarrow> error + research_state"
where
  "orchestrator_node prompt llm state =
     (let context = build_context state;
          msgs = [SystemMessage prompt] @ messages state @ [HumanMessage context]
      in thenE (llm msgs) (\<lambda>response.
           Inr (state\<lparr>messages := [response], cycle_count := cycle_count state + 1\<rparr>)))"

text \<open>
  \<^verbatim>\<open>tool_node\<close>. \<open>tool_executor\<close> is \<^verbatim>\<open>ToolNode(RESEARCH_TOOLS).invoke\<close>, which
  returns the result messages.
\<close>

definition tool_node ::
  "(research_state \<Rightarrow> error + message list) \<Rightarrow> research_state \<Rightarrow> error + research_state"
where
  "tool_node tool_executor state =
     thenE (tool_executor state) (\<lambda>result. Inr (state\<lparr>messages := result\<rparr>))"

text \<open>The payload of a marker: \<^verbatim>\<open>content.split(marker)[1].split("\n")[0]\<close>.\<close>

definition marker_line :: "string \<Rightarrow> string \<Rightarrow> error + string" where
  "marker_line marker c =
     thenE (py_split marker c) (\<lambda>parts.
     thenE (py_index parts 1) (\<lambda>rest.
     thenE (py_split [CHR 0x0A] rest) (\<lambda>lines.
     py_index lines 0)))"

text \<open>\<^verbatim>\<open>[f.strip() for f in line.split(",") if f.strip()]\<close>.\<close>

definition feature_list :: "string \<Rightarrow> error + string list" where
  "feature_list line =
     thenE (py_split '','' line) (\<lambda>fs. Inr (map strip (filter (\<lambda>f. strip f \<noteq> []) fs)))"

definition update_state_from_messages :: "research_state \<Rightarrow> error + research_state" where
  "update_state_from_messages state =
     thenE (py_last (messages state)) (\<lambda>last_message.
     let c = (case content last_message of Some c \<Rightarrow> c | None \<Rightarrow> [])
     in
     thenE (if contains ''RULED IN:'' c
            then thenE (marker_line ''RULED IN:'' c) (\<lambda>ruled_in_line.
                 thenE (feature_list ruled_in_line) (\<lambda>new_features.
                 Inr (state\<lparr>features_ruled_in :=
                        list_of_set (features_ruled_in state @ new_features)\<rparr>)))
            else Inr state) (\<lambda>s1.
     thenE (if contains ''RULED OUT:'' c
            then thenE (marker_line ''RULED OUT:'' c) (\<lambda>ruled_out_line.
                 thenE (feature_list ruled_out_line) (\<lambda>ruled_out.
                 Inr (s1\<lparr>features_ruled_out :=
                        list_of_set (features_ruled_out state @ ruled_out)\<rparr>)))
            else Inr s1) (\<lambda>s2.
     thenE (if contains ''NEXT HYPOTHESIS:'' c
            then thenE (marker_line ''NEXT HYPOTHESIS:'' c) (\<lambda>h.
                 Inr (s2\<lparr>current_hypothesis := strip h\<rparr>))
            else Inr s2) (\<lambda>s3.
     if contains ''PROMOTE'' c then Inr s3 else Inr s3))))"

datatype route = tools | continue | end_route

text \<open>\<^verbatim>\<open>hasattr(m, "tool_calls") and m.tool_calls\<close>.\<close>

definition has_tool_calls :: "message \<Rightarrow> bool" where
  "has_tool_calls m = (case tool_calls m of None \<Rightarrow> False | Some tcs \<Rightarrow> tcs \<noteq> [])"

text \<open>
  \<^verbatim>\<open>should_continue_research\<close>; \<^verbatim>\<open>"end"\<close> is written \<open>end_route\<close>, and
  \<^verbatim>\<open>state.get("should_continue", True)\<close> is true when the key is absent.
\<close>

definition should_continue_research :: "research_state \<Rightarrow> error + route" where
  "should_continue_research state =
     thenE (py_last (messages state)) (\<lambda>last_message.
       if has_tool_calls last_message
       then Inr tools
       else if cycle_count state \<ge> 10 then Inr end_route
       else if (case should_continue state of None \<Rightarrow> True | Some b \<Rightarrow> b) then Inr continue
       else Inr end_route)"

text \<open>
  The graph of \<^verbatim>\<open>build_research_graph\<close>: the nodes, the conditional edges out of the
  orchestrator and the two fixed edges back to it.
\<close>

datatype node = ORCHESTRATING | TOOLS | UPDATING | DONE

fun route_target :: "route \<Rightarrow> node" where
  "route_target tools = TOOLS"
| "route_target continue = UPDATING"
| "route_target end_route = DONE"

text \<open>The conditional edges out of the orchestrator.\<close>

definition conditional_edge :: "research_state \<Rightarrow> error + node" where
  "conditional_edge state = thenE (should_continue_research state) (\<lambda>r. Inr (route_target r))"

text \<open>
  A node's update is merged into the state key by key; \<open>messages\<close> is declared with
  \<^verbatim>\<open>operator.add\<close>, so the update's list is appended to the history, and every other
  key is overwritten.
\<close>

definition merge_update :: "research_state \<Rightarrow> research_state \<Rightarrow> research_state" where
  "merge_update state upd = upd\<lparr>messages := messages state @ messages upd\<rparr>"

record collaborators =
  system_prompt :: string
  llm_invoke :: "message list \<Rightarrow> error + message"
  tool_executor_invoke :: "research_state \<Rightarrow> error + message list"

text \<open>One step of the compiled graph from a node about to run.\<close>

fun graph_step :: "collaborators \<Rightarrow> node \<times> research_state \<Rightarrow> error + node \<times> research_state" where
  "graph_step env (ORCHESTRATING, s) =
     thenE (orchestrator_node (system_prompt env) (llm_invoke env) s) (\<lambda>upd.
     let s' = merge_update s upd
     in thenE (conditional_edge s') (\<lambda>n. Inr (n, s')))"
| "graph_step env (TOOLS, s) =
     thenE (tool_node (tool_executor_invoke env) s) (\<lambda>upd.
     Inr (ORCHESTRATING, merge_update s upd))"
| "graph_step env (UPDATING, s) =
     thenE (update_state_from_messages s) (\<lambda>upd.
     Inr (ORCHESTRATING, merge_update s upd))"
| "graph_step env (DONE, s) = Inr (DONE, s)"

text \<open>The initial state of \<^verbatim>\<open>run_research_loop\<close>; \<open>uuid\<close> is the generated identifier.\<close>

definition initial_state :: "string \<Rightarrow> string \<Rightarrow> research_state" where
  "initial_state uuid initial_hypothesis =
     \<lparr>messages = [], cycle_id = uuid, cycle_count = 0,
      features_ruled_in = [], features_ruled_out = [], promoted_strategies = [],
      current_hypothesis = initial_hypothesis, last_backtest_result = None,
      should_continue = Some True\<rparr>"

text \<open>
  A run of the graph, as the list of the configurations it goes through; \<open>fuel\<close>
  bounds the number of steps taken.
\<close>

fun run_graph ::
  "collaborators \<Rightarrow> nat \<Rightarrow> node \<times> research_state \<Rightarrow> error + (node \<times> research_state) list"
where
  "run_graph env 0 c = Inr [c]"
| "run_graph env (Suc fuel) c =
     (if fst c = DONE then Inr [c]
      else thenE (graph_step env c) (\<lambda>c'.
           thenE (run_graph env fuel c') (\<lambda>tr. Inr (c # tr))))"

text \<open>
  The text a turn carries after a marker, up to the end of the line, and the features
  it lists there; both are empty when the marker is absent.
\<close>

definition marker_payload :: "string \<Rightarrow> string \<Rightarrow> string" where
  "marker_payload marker c =
     (if contains marker c
      then (case marker_line marker c of Inr l \<Rightarrow> l | Inl e \<Rightarrow> [])
      else [])"

definition listed :: "string \<Rightarrow> string \<Rightarrow> string list" where
  "listed marker c =
     (case feature_list (marker_payload marker c) of Inr fs \<Rightarrow> fs | Inl e \<Rightarrow> [])"

definition last_content :: "research_state \<Rightarrow> string" where
  "last_content state =
     (case content (last (messages state)) of Some c \<Rightarrow> c | None \<Rightarrow> [])"

text \<open>
  Along a run, the count after a configuration is the count before it, plus one when
  the node that ran was the orchestrator.
\<close>

fun counts_ok :: "(node \<times> research_state) list \<Rightarrow> bool" where
  "counts_ok (c # c' # tr) =
     (cycle_count (snd c') = cycle_count (snd c) + (if fst c = ORCHESTRATING then 1 else 0)
      \<and> counts_ok (c' # tr))"
| "counts_ok tr = True"

subsection \<open>Example turns and states\<close>

definition ai_turn :: "string \<Rightarrow> tool_call list \<Rightarrow> message" where
  "ai_turn c tcs = \<lparr>role = AI, content = Some c, tool_calls = Some tcs\<rparr>"

definition state_with :: "message \<Rightarrow> int \<Rightarrow> bool \<Rightarrow> research_state" where
  "state_with m n b =
     (initial_state ''c1'' ''h0'')\<lparr>messages := [m], cycle_count := n, should_continue := Some b\<rparr>"

definition backtest_call :: tool_call where
  "backtest_call = \<lparr>tc_name = ''run_backtest'', tc_args = []\<rparr>"

definition conflict_turn :: message where
  "conflict_turn = ai_turn (''RULED IN: foo'' @ [CHR 0x0A] @ ''RULED OUT: foo'') []"

definition promote_turn :: message where
  "promote_turn = ai_turn ''PROMOTE: momentum_v1'' []"

definition rules_turn :: message where
  "rules_turn = ai_turn (''RULED IN: rsi_14, obv'' @ [CHR 0x0A] @ ''RULED OUT: macd_diff'') []"


definition echo_env :: collaborators where
  "echo_env =
     \<lparr>system_prompt = ''p'',
      llm_invoke = (\<lambda>ms. Inr (ai_turn ''RULED OUT: obv'' [])),
      tool_executor_invoke = (\<lambda>s. Inr [])\<rparr>"

section \<open>The evaluation engine (data.py, features.py, backtester.py)\<close>

subsection \<open>Series and frames\<close>

text \<open>
  A pandas index label is a timestamp in milliseconds. A series is the list of its
  (label, value) pairs in positional order. A frame has its column names and, per row,
  the label and the cells; a cell is \<open>None\<close> when it is NaN.
\<close>

type_synonym timestamp = int
type_synonym cell = "real option"
type_synonym 'a series = "(timestamp \<times> 'a) list"

record frame =
  columns :: "string list"
  rows :: "(timestamp \<times> (string \<Rightarrow> cell)) list"

text \<open>\<^verbatim>\<open>df[c]\<close> for one column name.\<close>

definition col :: "frame \<Rightarrow> string \<Rightarrow> error + cell series" where
  "col df c =
     (if c \<in> set (columns df) then Inr (map (\<lambda>(t, r). (t, r c)) (rows df))
      else Inl (KeyError c))"

text \<open>\<^verbatim>\<open>df[cs]\<close> for a list of column names.\<close>

definition select :: "frame \<Rightarrow> string list \<Rightarrow> error + frame" where
  "select df cs =
     (case filter (\<lambda>c. c \<notin> set (columns df)) cs of
        [] \<Rightarrow> Inr \<lparr>columns = cs, rows = rows df\<rparr>
      | c # _ \<Rightarrow> Inl (KeyError c))"

text \<open>\<^verbatim>\<open>df[c] = s\<close> for a series aligned on the frame's index.\<close>

definition set_col :: "frame \<Rightarrow> string \<Rightarrow> (timestamp \<Rightarrow> cell) \<Rightarrow> frame" where
  "set_col df c s =
     \<lparr>columns = (if c \<in> set (columns df) then columns df else columns df @ [c]),
      rows = map (\<lambda>(t, r). (t, r(c := s t))) (rows df)\<rparr>"

text \<open>\<^verbatim>\<open>df.dropna()\<close>: the rows without a NaN cell.\<close>

definition dropna :: "frame \<Rightarrow> frame" where
  "dropna df =
     df\<lparr>rows := filter (\<lambda>(t, r). list_all (\<lambda>c. r c \<noteq> None) (columns df)) (rows df)\<rparr>"

definition index :: "frame \<Rightarrow> timestamp list" where
  "index df = map fst (rows df)"

text \<open>\<^verbatim>\<open>xs[:k]\<close> and \<^verbatim>\<open>xs[k:]\<close>; a negative \<open>k\<close> counts from the end.\<close>

definition slice_pos :: "int \<Rightarrow> 'a list \<Rightarrow> nat" where
  "slice_pos k xs = nat (if k < 0 then int (length xs) + k else k)"

definition slice_to :: "int \<Rightarrow> 'a list \<Rightarrow> 'a list" where
  "slice_to k xs = take (slice_pos k xs) xs"

definition slice_from :: "int \<Rightarrow> 'a list \<Rightarrow> 'a list" where
  "slice_from k xs = drop (slice_pos k xs) xs"

text \<open>\<^verbatim>\<open>int(x)\<close> on a float: truncation towards zero.\<close>

definition py_int :: "real \<Rightarrow> int" where
  "py_int x = (if 0 \<le> x then \<lfloor>x\<rfloor> else \<lceil>x\<rceil>)"

definition mean :: "real list \<Rightarrow> real" where
  "mean xs = sum_list xs / real (length xs)"

subsection \<open>Price history (data.py)\<close>

record candle =
  c_timestamp :: timestamp
  c_open :: real
  c_high :: real
  c_low :: real
  c_close :: real
  c_volume :: real

text \<open>
  The exchange. \<open>all_candles\<close> is what the pagination loop of \<^verbatim>\<open>fetch_ohlcv\<close> has
  collected when it ends, or the exchange error it lets through; \<open>funding_rate_at\<close>
  and \<open>open_interest_at\<close> are the two merged columns after forward fill, 0 where
  nothing was fetched.
\<close>

record feed =
  all_candles :: "string \<Rightarrow> string \<Rightarrow> int \<Rightarrow> error + candle list"
  funding_rate_at :: "string \<Rightarrow> timestamp \<Rightarrow> real"
  open_interest_at :: "string \<Rightarrow> timestamp \<Rightarrow> real"

definition candle_row :: "candle \<Rightarrow> timestamp \<times> (string \<Rightarrow> cell)" where
  "candle_row c =
     (c_timestamp c,
      (\<lambda>k. None)(''open'' := Some (c_open c), ''high'' := Some (c_high c),
        ''low'' := Some (c_low c), ''close'' := Some (c_close c),
        ''volume'' := Some (c_volume c)))"

text \<open>\<^verbatim>\<open>df[~df.index.duplicated(keep="last")]\<close>.\<close>

fun keep_last :: "(timestamp \<times> 'a) list \<Rightarrow> (timestamp \<times> 'a) list" where
  "keep_last [] = []"
| "keep_last (r # rs) = (if fst r \<in> fst ` set rs then keep_last rs else r # keep_last rs)"

text \<open>
  \<^verbatim>\<open>fetch_ohlcv\<close> from the end of its pagination loop on, with the default arguments
  that \<^verbatim>\<open>run_backtest\<close> leaves in place. Rows with the same timestamp are ordered as
  a stable sort leaves them.
\<close>

definition fetch_ohlcv :: "feed \<Rightarrow> string \<Rightarrow> string \<Rightarrow> int \<Rightarrow> error + frame" where
  "fetch_ohlcv fd symbol timeframe lookback_days =
     thenE (all_candles fd symbol timeframe lookback_days) (\<lambda>cs.
       if cs = []
       then Inl (ValueError (''No data returned for '' @ symbol @ '' '' @ timeframe))
       else
         let df = \<lparr>columns = [''open'', ''high'', ''low'', ''close'', ''volume''],
                   rows = keep_last (sort_key fst (map candle_row cs))\<rparr>;
             df = set_col df ''funding_rate'' (\<lambda>t. Some (funding_rate_at fd symbol t));
             df = set_col df ''open_interest'' (\<lambda>t. Some (open_interest_at fd symbol t))
         in Inr df)"

subsection \<open>Features (features.py)\<close>

definition FEATURE_REGISTRY :: "string list" where
  "FEATURE_REGISTRY =
     [''rsi_14'', ''rsi_7'', ''macd_signal'', ''macd_diff'', ''atr_14'', ''bb_width'',
      ''volume_zscore'', ''obv'', ''vwap_distance'', ''log_return'',
      ''rolling_volatility_24'', ''funding_rate'', ''open_interest_change'']"

text \<open>The printed form of a list of strings.\<close>

definition str_list :: "string list \<Rightarrow> string" where
  "str_list xs = ''['' @ join '', '' (map (\<lambda>x. [CHR 0x27] @ x @ [CHR 0x27]) xs) @ '']''"

text \<open>
  \<^verbatim>\<open>compute_features\<close>. \<open>indicator name df\<close> is the series that the registered
  function of that name computes from the frame.
\<close>

fun add_features ::
  "(string \<Rightarrow> frame \<Rightarrow> timestamp \<Rightarrow> cell) \<Rightarrow> frame \<Rightarrow> frame \<Rightarrow> string list \<Rightarrow> error + frame"
where
  "add_features indicator df result [] = Inr result"
| "add_features indicator df result (name # names) =
     (if name \<notin> set FEATURE_REGISTRY
      then Inl (ValueError (''Unknown feature: '' @ name @ ''. Available: ''
                  @ str_list FEATURE_REGISTRY))
      else add_features indicator df (set_col result name (indicator name df)) names)"

definition compute_features ::
  "(string \<Rightarrow> frame \<Rightarrow> timestamp \<Rightarrow> cell) \<Rightarrow> frame \<Rightarrow> string list \<Rightarrow> error + frame"
where
  "compute_features indicator df feature_names =
     thenE (add_features indicator df df feature_names) (\<lambda>result. Inr (dropna result))"

subsection \<open>Labels and split (backtester.py)\<close>

definition FEES :: real where
  "FEES = 1 / 1000"

definition SLIPPAGE :: real where
  "SLIPPAGE = 5 / 10000"

definition cell_times :: "cell \<Rightarrow> real \<Rightarrow> cell" where
  "cell_times a k = map_option (\<lambda>x. x * k) a"

text \<open>Comparisons of cells; one with a NaN operand is false.\<close>

definition cell_ge :: "cell \<Rightarrow> cell \<Rightarrow> bool" where
  "cell_ge a b = (case (a, b) of (Some x, Some y) \<Rightarrow> y \<le> x | _ \<Rightarrow> False)"

definition cell_le :: "cell \<Rightarrow> cell \<Rightarrow> bool" where
  "cell_le a b = (case (a, b) of (Some x, Some y) \<Rightarrow> x \<le> y | _ \<Rightarrow> False)"

text \<open>
  \<^verbatim>\<open>s.idxmax()\<close> on a boolean series: the label of the first greatest value, which
  is the first true one, or the first label of all when none is true. An empty series
  raises.
\<close>

definition idxmax :: "bool series \<Rightarrow> error + timestamp" where
  "idxmax bs =
     (if bs = [] then Inl (ValueError ''attempt to get argmax of an empty sequence'')
      else case find snd bs of
             Some (t, b) \<Rightarrow> Inr t
           | None \<Rightarrow> Inr (fst (hd bs)))"

text \<open>The truth value of an index label: a pandas timestamp is always true.\<close>

definition truthy :: "timestamp \<Rightarrow> bool" where
  "truthy t = True"

text \<open>The body of the loop of \<^verbatim>\<open>_triple_barrier_label\<close> at position \<open>i\<close>.\<close>

definition label_at :: "cell series \<Rightarrow> real \<Rightarrow> real \<Rightarrow> nat \<Rightarrow> nat \<Rightarrow> error + int" where
  "label_at close stop_loss take_profit max_holding i =
     thenE (py_index close i) (\<lambda>e.
     let entry = snd e;
         future = take max_holding (drop (i + 1) close)
     in
     thenE (idxmax (map (\<lambda>(t, v). (t, cell_ge v (cell_times entry (1 + take_profit)))) future))
       (\<lambda>tp_hit.
     thenE (idxmax (map (\<lambda>(t, v). (t, cell_le v (cell_times entry (1 - stop_loss)))) future))
       (\<lambda>sl_hit.
     if truthy tp_hit \<and> (\<not> truthy sl_hit \<or> tp_hit \<le> sl_hit) then Inr 1
     else if truthy sl_hit then Inr 0
     else Inr 0)))"

fun label_loop :: "cell series \<Rightarrow> real \<Rightarrow> real \<Rightarrow> nat \<Rightarrow> nat list \<Rightarrow> error + int list" where
  "label_loop close stop_loss take_profit max_holding [] = Inr []"
| "label_loop close stop_loss take_profit max_holding (i # is) =
     thenE (label_at close stop_loss take_profit max_holding i) (\<lambda>l.
     thenE (label_loop close stop_loss take_profit max_holding is) (\<lambda>ls. Inr (l # ls)))"

text \<open>\<^verbatim>\<open>_triple_barrier_label\<close>, for a horizon that is not negative.\<close>

definition triple_barrier_label ::
  "cell series \<Rightarrow> real \<Rightarrow> real \<Rightarrow> nat \<Rightarrow> error + int series"
where
  "triple_barrier_label close stop_loss take_profit max_holding =
     thenE (label_loop close stop_loss take_profit max_holding
              [0 ..< length close - max_holding]) (\<lambda>labels.
     Inr (zip (take (length labels) (map fst close)) labels))"

text \<open>\<^verbatim>\<open>_walk_forward_split\<close>; the frames are given by their rows.\<close>

definition split_index :: "nat \<Rightarrow> real \<Rightarrow> int" where
  "split_index n test_ratio = py_int (real n * (1 - test_ratio))"

definition walk_forward_split ::
  "frame \<Rightarrow> int series \<Rightarrow> real \<Rightarrow> frame \<times> frame \<times> int series \<times> int series \<times> timestamp list"
where
  "walk_forward_split X y test_ratio =
     (let split = split_index (length (rows X)) test_ratio
      in (X\<lparr>rows := slice_to split (rows X)\<rparr>, X\<lparr>rows := slice_from split (rows X)\<rparr>,
          slice_to split y, slice_from split y,
          map fst (slice_from split (rows X))))"

subsection \<open>Configuration and result (models.py)\<close>

record strategy_config =
  name :: string
  description :: string
  features :: "string list"
  entry_logic :: string
  exit_logic :: string
  assets :: "string list"
  timeframe :: string
  lookback_days :: int
  stop_loss_pct :: real
  take_profit_pct :: real
  position_sizing :: string

datatype verdict = promote | iterate | discard

record backtest_result =
  strategy_name :: string
  sharpe_ratio :: real
  sortino_ratio :: real
  max_drawdown :: real
  win_rate :: real
  profit_factor :: real
  total_return :: real
  n_trades :: int
  avg_trade_duration_hours :: real
  feature_importances :: "(string \<times> real) list"
  regime_breakdown :: "(string \<times> real) list"
  overfitting_score :: real
  verdict :: verdict
  verdict_reason :: string

subsection \<open>Walk-forward evaluation (backtester.py)\<close>

text \<open>
  The arguments of one call of \<^verbatim>\<open>vbt.Portfolio.from_signals\<close>; an argument that the
  call does not pass is \<open>None\<close>.
\<close>

record signals_call =
  sc_close :: "cell series"
  sc_entries :: "bool series"
  sc_exits :: "bool series"
  sc_fees :: "real option"
  sc_slippage :: "real option"
  sc_init_cash :: "real option"
  sc_sl_stop :: "real option"
  sc_tp_stop :: "real option"

text \<open>What the library reports of a simulated portfolio.\<close>

record pf_stats =
  pf_sharpe_ratio :: real
  pf_sortino_ratio :: real
  pf_max_drawdown :: real
  pf_win_rate :: real
  pf_profit_factor :: real
  pf_total_return :: real
  pf_trades_count :: int

text \<open>A portfolio: the call that made it (\<^verbatim>\<open>pf.close\<close> is the close it was given) and its statistics.\<close>

record portfolio =
  pf_call :: signals_call
  pf_stats :: pf_stats

definition pf_close :: "portfolio \<Rightarrow> cell series" where
  "pf_close pf = sc_close (pf_call pf)"

text \<open>A trained classifier is its \<^verbatim>\<open>predict_proba(X)[:, 1]\<close>, which may raise.\<close>

type_synonym classifier = "frame \<Rightarrow> error + real list"

text \<open>
  The libraries: the indicator functions behind the feature registry, the fitting of
  the classifier, the portfolio simulator, the attribution of feature importance
  (\<^verbatim>\<open>np.abs(shap_values).mean(axis=0)\<close>) and the printing of a float with two decimals.
\<close>

record libraries =
  indicator :: "string \<Rightarrow> frame \<Rightarrow> timestamp \<Rightarrow> cell"
  lgb_fit :: "frame \<Rightarrow> int series \<Rightarrow> error + classifier"
  from_signals :: "signals_call \<Rightarrow> error + pf_stats"
  shap_importance :: "classifier \<Rightarrow> frame \<Rightarrow> error + real list"
  fmt2 :: "real \<Rightarrow> string"

text \<open>An entry of \<^verbatim>\<open>all_results\<close>.\<close>

record asset_result =
  r_asset :: string
  r_pf :: portfolio
  r_model :: classifier
  r_X_test :: frame
  r_X_train :: frame
  r_y_test :: "int series"

text \<open>\<^verbatim>\<open>s.loc[labels]\<close>: the values at the labels, \<^verbatim>\<open>KeyError\<close> at one that is missing.\<close>

fun loc :: "'a series \<Rightarrow> timestamp list \<Rightarrow> error + 'a series" where
  "loc s [] = Inr []"
| "loc s (t # ts) =
     (case map_of s t of
        None \<Rightarrow> Inl (KeyError (str_int t))
      | Some v \<Rightarrow> thenE (loc s ts) (\<lambda>vs. Inr ((t, v) # vs)))"

text \<open>\<^verbatim>\<open>pd.Series(values, index=labels)\<close>: the lengths must agree.\<close>

definition mk_series :: "'a list \<Rightarrow> timestamp list \<Rightarrow> error + 'a series" where
  "mk_series vs ts =
     (if length vs = length ts then Inr (zip ts vs)
      else Inl (ValueError ''Length of values does not match length of index''))"

text \<open>
  The frame and the labels that \<^verbatim>\<open>run_backtest\<close> hands to the split, from the frame
  that \<^verbatim>\<open>compute_features\<close> returned.
\<close>

definition split_inputs :: "strategy_config \<Rightarrow> frame \<Rightarrow> error + frame \<times> int series" where
  "split_inputs config df =
     thenE (col df ''close'') (\<lambda>close.
     thenE (triple_barrier_label close (stop_loss_pct config) (take_profit_pct config) 48)
       (\<lambda>labels.
     thenE (select df (features config)) (\<lambda>feature_df.
     Inr (feature_df, labels))))"

text \<open>
  The body of the loop of \<^verbatim>\<open>run_backtest\<close> for one asset. \<^verbatim>\<open>validate_ohlcv\<close> only
  logs, and its result is dropped.
\<close>

definition evaluate_asset ::
  "feed \<Rightarrow> libraries \<Rightarrow> strategy_config \<Rightarrow> string \<Rightarrow> error + asset_result"
where
  "evaluate_asset fd lib config asset =
     thenE (fetch_ohlcv fd asset (timeframe config) (lookback_days config)) (\<lambda>df.
     thenE (compute_features (indicator lib) df (features config)) (\<lambda>df.
     thenE (split_inputs config df) (\<lambda>(feature_df, labels).
     case walk_forward_split feature_df labels (3 / 10) of
       (X_train, X_test, y_train, y_test, dates_test) \<Rightarrow>
     thenE (lgb_fit lib X_train y_train) (\<lambda>model.
     thenE (model X_test) (\<lambda>probs.
     thenE (mk_series (map (\<lambda>p. 65 / 100 < p) probs) dates_test) (\<lambda>entries.
     thenE (mk_series (map (\<lambda>p. p < 35 / 100) probs) dates_test) (\<lambda>exits.
     thenE (col df ''close'') (\<lambda>close.
     thenE (loc close dates_test) (\<lambda>test_close.
     let call = \<lparr>sc_close = test_close, sc_entries = entries, sc_exits = exits,
                  sc_fees = Some FEES, sc_slippage = Some SLIPPAGE,
                  sc_init_cash = Some 10000,
                  sc_sl_stop = Some (stop_loss_pct config),
                  sc_tp_stop = Some (take_profit_pct config)\<rparr>
     in
     thenE (from_signals lib call) (\<lambda>st.
     Inr \<lparr>r_asset = asset, r_pf = \<lparr>pf_call = call, pf_stats = st\<rparr>, r_model = model,
          r_X_test = X_test, r_X_train = X_train, r_y_test = y_test\<rparr>))))))))))"

text \<open>The loop over the assets; the first exception ends it.\<close>

fun evaluate_assets ::
  "feed \<Rightarrow> libraries \<Rightarrow> strategy_config \<Rightarrow> string list \<Rightarrow> error + asset_result list"
where
  "evaluate_assets fd lib config [] = Inr []"
| "evaluate_assets fd lib config (asset # rest) =
     thenE (evaluate_asset fd lib config asset) (\<lambda>r.
     thenE (evaluate_assets fd lib config rest) (\<lambda>rs. Inr (r # rs)))"

text \<open>The call that \<^verbatim>\<open>_aggregate_results\<close> makes for its in-sample portfolio.\<close>

definition in_sample_call :: "asset_result \<Rightarrow> signals_call" where
  "in_sample_call r0 =
     \<lparr>sc_close = pf_close (r_pf r0),
      sc_entries = map (\<lambda>t. (t, True)) (index (r_X_train r0)),
      sc_exits = map (\<lambda>t. (t, False)) (index (r_X_train r0)),
      sc_fees = Some FEES, sc_slippage = None, sc_init_cash = None,
      sc_sl_stop = None, sc_tp_stop = None\<rparr>"

text \<open>
  The verdict and its reason, from the three aggregate figures; \<open>fmt\<close> prints a
  float with two decimals, and the dash of the second reason is written as a hyphen.
\<close>

definition decide :: "(real \<Rightarrow> string) \<Rightarrow> real \<Rightarrow> real \<Rightarrow> real \<Rightarrow> verdict \<times> string" where
  "decide fmt avg_sharpe avg_drawdown overfitting =
     (if 15 / 10 < avg_sharpe \<and> - (12 / 100) < avg_drawdown \<and> overfitting < 5 / 10
      then (promote, ''Sharpe '' @ fmt avg_sharpe @ '' exceeds threshold, drawdown acceptable'')
      else if 8 / 10 < avg_sharpe
      then (iterate, ''Marginal Sharpe '' @ fmt avg_sharpe @ '' - worth refining features'')
      else (discard, ''Sharpe '' @ fmt avg_sharpe @ '' below minimum threshold''))"

text \<open>\<^verbatim>\<open>_aggregate_results\<close>.\<close>

definition aggregate_results ::
  "libraries \<Rightarrow> strategy_config \<Rightarrow> asset_result list \<Rightarrow> error + backtest_result"
where
  "aggregate_results lib config results =
     (let portfolios = map (\<lambda>r. pf_stats (r_pf r)) results;
          sharpes = map pf_sharpe_ratio portfolios;
          drawdowns = map pf_max_drawdown portfolios;
          win_rates = map pf_win_rate portfolios;
          n = sum_list (map pf_trades_count portfolios)
      in
      thenE (py_index results 0) (\<lambda>r0.
      thenE (shap_importance lib (r_model r0) (r_X_test r0)) (\<lambda>shap_values.
      let importance = zip (features config) shap_values;
          avg_sharpe = mean sharpes;
          avg_drawdown = mean drawdowns
      in
      thenE (from_signals lib (in_sample_call r0)) (\<lambda>in_sample_pf.
      let overfitting = \<bar>avg_sharpe - pf_sharpe_ratio in_sample_pf\<bar>;
          (v, reason) = decide (fmt2 lib) avg_sharpe avg_drawdown overfitting
      in
      Inr \<lparr>strategy_name = name config,
           sharpe_ratio = avg_sharpe,
           sortino_ratio = mean (map pf_sortino_ratio portfolios),
           max_drawdown = avg_drawdown,
           win_rate = mean win_rates,
           profit_factor = mean (map pf_profit_factor portfolios),
           total_return = mean (map pf_total_return portfolios),
           n_trades = n,
           avg_trade_duration_hours = 24,
           feature_importances = importance,
           regime_breakdown = [],
           overfitting_score = overfitting,
           verdict = v,
           verdict_reason = reason\<rparr>))))"

text \<open>\<^verbatim>\<open>run_backtest\<close>.\<close>

definition run_backtest :: "feed \<Rightarrow> libraries \<Rightarrow> strategy_config \<Rightarrow> error + backtest_result" where
  "run_backtest fd lib config =
     thenE (evaluate_assets fd lib config (assets config)) (\<lambda>all_results.
     aggregate_results lib config all_results)"

text \<open>The three figures that the verdict is decided from, and the verdict.\<close>

definition figures :: "backtest_result \<Rightarrow> real \<times> real \<times> real \<times> verdict" where
  "figures r = (sharpe_ratio r, max_drawdown r, overfitting_score r, verdict r)"

text \<open>
  The in-sample simulation as the specification words it, for comparison with
  \<^const>\<open>in_sample_call\<close>: the strategy's stop-loss and take-profit as hard exits, over
  the prices of the training period, always long.
\<close>

definition spec_in_sample_call :: "strategy_config \<Rightarrow> cell series \<Rightarrow> signals_call" where
  "spec_in_sample_call config train_close =
     \<lparr>sc_close = train_close,
      sc_entries = map (\<lambda>(t, v). (t, True)) train_close,
      sc_exits = map (\<lambda>(t, v). (t, False)) train_close,
      sc_fees = Some FEES, sc_slippage = Some SLIPPAGE, sc_init_cash = Some 10000,
      sc_sl_stop = Some (stop_loss_pct config),
      sc_tp_stop = Some (take_profit_pct config)\<rparr>"

subsection \<open>Example inputs\<close>

text \<open>A price path that stays at 100 over 49 hourly candles.\<close>

definition flat_path :: "cell series" where
  "flat_path = map (\<lambda>k. (int k * 3600000, Some 100)) [0 ..< 49]"

definition ex_candle :: "nat \<Rightarrow> candle" where
  "ex_candle k =
     \<lparr>c_timestamp = int k, c_open = 100, c_high = 100, c_low = 100, c_close = 100,
      c_volume = 1\<rparr>"

text \<open>An exchange with 51 candles for one symbol and none for any other.\<close>

definition ex_feed :: feed where
  "ex_feed =
     \<lparr>all_candles = (\<lambda>symbol tf lb.
        if symbol = ''BTC/USDT'' then Inr (map ex_candle [0 ..< 51]) else Inr []),
      funding_rate_at = (\<lambda>symbol t. 0),
      open_interest_at = (\<lambda>symbol t. 0)\<rparr>"

definition ex_stats :: "real \<Rightarrow> real \<Rightarrow> pf_stats" where
  "ex_stats s d =
     \<lparr>pf_sharpe_ratio = s, pf_sortino_ratio = 0, pf_max_drawdown = d, pf_win_rate = 0,
      pf_profit_factor = 0, pf_total_return = 0, pf_trades_count = 0\<rparr>"

text \<open>
  Libraries for the examples: an indicator that is NaN on the first candle, a
  classifier that always predicts 0.7, and a simulator that reports Sharpe 1.6 and
  drawdown -0.12 when it is given a stop-loss and Sharpe 1.3 when it is given none.
\<close>

definition ex_lib :: libraries where
  "ex_lib =
     \<lparr>indicator = (\<lambda>nm df t. if t = 0 then None else Some 1),
      lgb_fit = (\<lambda>X y. Inr (\<lambda>X'. Inr (map (\<lambda>r. 7 / 10) (rows X')))),
      from_signals = (\<lambda>call. case sc_sl_stop call of
                         None \<Rightarrow> Inr (ex_stats (13 / 10) 0)
                       | Some x \<Rightarrow> Inr (ex_stats (16 / 10) (- (12 / 100)))),
      shap_importance = (\<lambda>m X. Inr (map (\<lambda>c. 0) (columns X))),
      fmt2 = (\<lambda>x. ''?'')\<rparr>"

definition ex_config :: strategy_config where
  "ex_config =
     \<lparr>name = ''momentum_v1'', description = ''d'', features = [''log_return''],
      entry_logic = ''e'', exit_logic = ''x'', assets = [''BTC/USDT''], timeframe = ''1h'',
      lookback_days = 730, stop_loss_pct = 3 / 100, take_profit_pct = 6 / 100,
      position_sizing = ''quarter_kelly''\<rparr>"

definition two_asset_config :: strategy_config where
  "two_asset_config = ex_config\<lparr>assets := [''BTC/USDT'', ''ETH/USDT'']\<rparr>"

text \<open>The training-period closes of the example: the first 35 of the 50 rows kept.\<close>

definition ex_train_close :: "cell series" where
  "ex_train_close = map (\<lambda>k. (int k, Some 100)) [1 ..< 36]"





section \<open>Properties of the research agent\<close>

subsection \<open>Sequencing and strings\<close>

lemma thenE_Inr [simp]: "thenE (Inr x) f = f x"
  by (simp add: thenE_def)

lemma thenE_Inl [simp]: "thenE (Inl e) f = Inl e"
  by (simp add: thenE_def)

lemma thenE_Inr_iff: "thenE m f = Inr y \<longleftrightarrow> (\<exists>x. m = Inr x \<and> f x = Inr y)"
  by (cases m) auto

lemma thenE_Inl_iff: "thenE m f = Inl e \<longleftrightarrow> m = Inl e \<or> (\<exists>x. m = Inr x \<and> f x = Inl e)"
  by (cases m) auto

lemma set_list_of_set [simp]: "set (list_of_set xs) = set xs"
  by (simp add: list_of_set_def)

lemma split_ne_not_Nil: "split_ne sep s \<noteq> []"
  by (subst split_ne.simps) (simp split: option.split)

lemma split_ne_found:
  assumes "sep \<noteq> []" and "find_sub sep s = Some i"
  shows "split_ne sep s = take i s # split_ne sep (drop (i + length sep) s)"
  using assms by (subst split_ne.simps) simp

lemma split_ne_second:
  assumes "sep \<noteq> []" and "contains sep s"
  shows "1 < length (split_ne sep s)"
proof -
  from assms(2) obtain i where "find_sub sep s = Some i"
    by (auto simp: contains_def)
  with assms(1) have "split_ne sep s = take i s # split_ne sep (drop (i + length sep) s)"
    by (rule split_ne_found)
  moreover have "split_ne sep (drop (i + length sep) s) \<noteq> []"
    by (rule split_ne_not_Nil)
  ultimately show ?thesis by (cases "split_ne sep (drop (i + length sep) s)") auto
qed

lemma marker_line_total:
  assumes "marker \<noteq> []" and "contains marker c"
  shows "\<exists>l. marker_line marker c = Inr l"
proof -
  have "1 < length (split_ne marker c)" using assms by (rule split_ne_second)
  moreover have "0 < length (split_ne [CHR 0x0A] r)" for r
    using split_ne_not_Nil [of "[CHR 0x0A]" r] by simp
  ultimately show ?thesis
    using assms(1) by (simp add: marker_line_def py_split_def py_index_def)
qed

lemma marker_line_eq:
  assumes "marker \<noteq> []" and "contains marker c"
  shows "marker_line marker c = Inr (marker_payload marker c)"
  using marker_line_total [OF assms] assms(2) by (auto simp: marker_payload_def)

lemma feature_list_eq:
  "feature_list l = Inr (map strip (filter (\<lambda>f. strip f \<noteq> []) (split_ne '','' l)))"
  by (simp add: feature_list_def py_split_def)

lemma listed_absent: "\<not> contains marker c \<Longrightarrow> listed marker c = []"
  by (simp add: listed_def marker_payload_def feature_list_eq split_ne.simps [of _ "[]"] strip_def)

subsection \<open>The state extractor\<close>

text \<open>
  On a history that is not empty the extractor returns, and its result is the input
  with at most three fields replaced.
\<close>

lemma update_state_result:
  assumes "messages s \<noteq> []"
  shows "update_state_from_messages s =
     Inr (s\<lparr>features_ruled_in :=
              (if contains ''RULED IN:'' (last_content s)
               then list_of_set (features_ruled_in s @ listed ''RULED IN:'' (last_content s))
               else features_ruled_in s),
            features_ruled_out :=
              (if contains ''RULED OUT:'' (last_content s)
               then list_of_set (features_ruled_out s @ listed ''RULED OUT:'' (last_content s))
               else features_ruled_out s),
            current_hypothesis :=
              (if contains ''NEXT HYPOTHESIS:'' (last_content s)
               then strip (marker_payload ''NEXT HYPOTHESIS:'' (last_content s))
               else current_hypothesis s)\<rparr>)"
proof -
  let ?c = "last_content s"
  have a: "contains ''RULED IN:'' ?c \<Longrightarrow>
      marker_line ''RULED IN:'' ?c = Inr (marker_payload ''RULED IN:'' ?c)"
    by (rule marker_line_eq) simp
  have b: "contains ''RULED OUT:'' ?c \<Longrightarrow>
      marker_line ''RULED OUT:'' ?c = Inr (marker_payload ''RULED OUT:'' ?c)"
    by (rule marker_line_eq) simp
  have c: "contains ''NEXT HYPOTHESIS:'' ?c \<Longrightarrow>
      marker_line ''NEXT HYPOTHESIS:'' ?c = Inr (marker_payload ''NEXT HYPOTHESIS:'' ?c)"
    by (rule marker_line_eq) simp
  have d: "(case content (last (messages s)) of None \<Rightarrow> [] | Some c \<Rightarrow> c) = ?c"
    by (simp add: last_content_def split: option.split)
  have e: "feature_list l = Inr (listed m ?c)" if "l = marker_payload m ?c" for l m
    using that by (simp add: listed_def feature_list_eq)
  show ?thesis
    using assms by (simp add: update_state_from_messages_def Let_def py_last_def d a b c e)
qed

lemma update_state_empty:
  "messages s = [] \<Longrightarrow> update_state_from_messages s = Inl IndexError"
  by (simp add: update_state_from_messages_def py_last_def)

lemma update_state_Inr:
  assumes "update_state_from_messages s = Inr s'"
  shows "messages s \<noteq> []"
  using assms update_state_empty [of s] by auto

text \<open>
  C5, as the code has it: after a pass through the updating step each of the two
  feature sets is its former content together with the features the turn lists after
  the respective marker. Nothing is taken out of either set, so the two are disjoint
  afterwards exactly when these two unions are.
\<close>

theorem ruled_sets_after_update:
  assumes "update_state_from_messages s = Inr s'"
  shows "set (features_ruled_in s') =
           set (features_ruled_in s) \<union> set (listed ''RULED IN:'' (last_content s))
     \<and> set (features_ruled_out s') =
           set (features_ruled_out s) \<union> set (listed ''RULED OUT:'' (last_content s))
     \<and> ((set (features_ruled_in s') \<inter> set (features_ruled_out s') = {}) =
         ((set (features_ruled_in s) \<union> set (listed ''RULED IN:'' (last_content s)))
          \<inter> (set (features_ruled_out s) \<union> set (listed ''RULED OUT:'' (last_content s))) = {}))"
proof -
  have ne: "messages s \<noteq> []" using assms by (rule update_state_Inr)
  have i: "set (features_ruled_in s') =
      set (features_ruled_in s) \<union> set (listed ''RULED IN:'' (last_content s))"
    using assms update_state_result [OF ne]
    by (cases "contains ''RULED IN:'' (last_content s)") (auto simp: listed_absent)
  have out: "set (features_ruled_out s') =
      set (features_ruled_out s) \<union> set (listed ''RULED OUT:'' (last_content s))"
    using assms update_state_result [OF ne]
    by (cases "contains ''RULED OUT:'' (last_content s)") (auto simp: listed_absent)
  show ?thesis unfolding i out by simp
qed

text \<open>
  Witness for C5: a turn that rules two features in and one out, from empty sets.
\<close>

theorem ruled_sets_after_update_witness:
  "update_state_from_messages (state_with rules_turn 1 True) =
     Inr ((state_with rules_turn 1 True)
            \<lparr>features_ruled_in := [''rsi_14'', ''obv''], features_ruled_out := [''macd_diff'']\<rparr>)
   \<and> set (listed ''RULED IN:'' (last_content (state_with rules_turn 1 True))) =
       {''rsi_14'', ''obv''}
   \<and> set (listed ''RULED OUT:'' (last_content (state_with rules_turn 1 True))) =
       {''macd_diff''}"
proof -
  let ?s = "state_with rules_turn 1 True"
  let ?s' = "?s\<lparr>features_ruled_in := [''rsi_14'', ''obv''], features_ruled_out := [''macd_diff'']\<rparr>"
  have h: "update_state_from_messages ?s = Inr ?s'" by code_simp
  have "features_ruled_in ?s = []" and "features_ruled_out ?s = []"
    by (simp_all add: state_with_def initial_state_def)
  with ruled_sets_after_update [OF h] h show ?thesis by auto
qed

text \<open>
  C5 as stated fails: a turn that names the same feature after both markers leaves it
  in both sets, although both were empty before.
\<close>

theorem ruled_sets_conflict:
  "update_state_from_messages (state_with conflict_turn 1 True) =
     Inr ((state_with conflict_turn 1 True)
            \<lparr>features_ruled_in := [''foo''], features_ruled_out := [''foo'']\<rparr>)
   \<and> features_ruled_in (state_with conflict_turn 1 True) = []
   \<and> features_ruled_out (state_with conflict_turn 1 True) = []
   \<and> set [''foo''] \<inter> set [''foo''] \<noteq> ({} :: string set)"
proof -
  have "update_state_from_messages (state_with conflict_turn 1 True) =
     Inr ((state_with conflict_turn 1 True)
            \<lparr>features_ruled_in := [''foo''], features_ruled_out := [''foo'']\<rparr>)"
    by code_simp
  then show ?thesis by (simp add: state_with_def initial_state_def)
qed

text \<open>
  C7: a turn with a promotion marker naming a strategy. The extractor returns the state
  as it was; \<open>promoted_strategies\<close> stays empty.
\<close>

theorem promote_marker_not_recorded:
  "update_state_from_messages (state_with promote_turn 1 True) =
     Inr (state_with promote_turn 1 True)
   \<and> promoted_strategies (state_with promote_turn 1 True) = []"
proof -
  have "update_state_from_messages (state_with promote_turn 1 True) =
     Inr (state_with promote_turn 1 True)"
    by code_simp
  then show ?thesis by (simp add: state_with_def initial_state_def)
qed

text \<open>No turn ever changes \<open>promoted_strategies\<close>.\<close>

lemma update_state_promoted:
  assumes "update_state_from_messages s = Inr s'"
  shows "promoted_strategies s' = promoted_strategies s"
  using assms update_state_result [OF update_state_Inr [OF assms]] by auto



subsection \<open>Routing\<close>

lemma conditional_edge_result:
  assumes "messages s \<noteq> []"
  shows "conditional_edge s =
     Inr (if has_tool_calls (last (messages s)) then TOOLS
          else if 10 \<le> cycle_count s then DONE
          else if should_continue s = Some False then DONE
          else UPDATING)"
  using assms
  by (cases "should_continue s")
     (auto simp: conditional_edge_def should_continue_research_def py_last_def)

lemma orchestrator_node_messages:
  "orchestrator_node p llm s = Inr upd \<Longrightarrow> messages (merge_update s upd) \<noteq> []"
  by (auto simp: orchestrator_node_def Let_def merge_update_def thenE_Inr_iff)

text \<open>
  After a step of the orchestrator the history has a latest turn, and the next node is
  the one the conditional edge gives on the new state.
\<close>

lemma graph_step_orchestrating:
  assumes "graph_step env (ORCHESTRATING, s) = Inr (n, s')"
  shows "messages s' \<noteq> []" and "conditional_edge s' = Inr n"
  using assms
  by (auto simp: thenE_Inr_iff Let_def dest: orchestrator_node_messages)

text \<open>
  C3: on a state with a latest turn (as every state is after the orchestrator has
  run), the routing goes to TOOLS when the turn has pending tool calls, whatever the
  count and the flag; else to DONE when the count has reached 10, whatever the flag;
  else to DONE when the flag is false; else to UPDATING.
\<close>

theorem routing_priority:
  assumes "messages s \<noteq> []"
  shows "(has_tool_calls (last (messages s)) \<longrightarrow> conditional_edge s = Inr TOOLS)
    \<and> (\<not> has_tool_calls (last (messages s)) \<and> 10 \<le> cycle_count s
         \<longrightarrow> conditional_edge s = Inr DONE)
    \<and> (\<not> has_tool_calls (last (messages s)) \<and> cycle_count s < 10
         \<and> should_continue s = Some False \<longrightarrow> conditional_edge s = Inr DONE)
    \<and> (\<not> has_tool_calls (last (messages s)) \<and> cycle_count s < 10
         \<and> should_continue s \<noteq> Some False \<longrightarrow> conditional_edge s = Inr UPDATING)"
  using conditional_edge_result [OF assms] by simp

text \<open>Witness for C3: one state for each of the four rules.\<close>

theorem routing_priority_witness:
  "conditional_edge (state_with (ai_turn ''x'' [backtest_call]) 10 False) = Inr TOOLS
   \<and> conditional_edge (state_with (ai_turn ''x'' []) 10 True) = Inr DONE
   \<and> conditional_edge (state_with (ai_turn ''x'' []) 9 False) = Inr DONE
   \<and> conditional_edge (state_with (ai_turn ''x'' []) 9 True) = Inr UPDATING"
  using routing_priority [of "state_with (ai_turn ''x'' [backtest_call]) 10 False"]
    routing_priority [of "state_with (ai_turn ''x'' []) 10 True"]
    routing_priority [of "state_with (ai_turn ''x'' []) 9 False"]
    routing_priority [of "state_with (ai_turn ''x'' []) 9 True"]
  by (simp add: state_with_def ai_turn_def has_tool_calls_def backtest_call_def)

subsection \<open>The cycle count\<close>

lemma orchestrator_node_count:
  "orchestrator_node p llm s = Inr upd \<Longrightarrow> cycle_count upd = cycle_count s + 1"
  by (auto simp: orchestrator_node_def Let_def thenE_Inr_iff)

lemma tool_node_count: "tool_node ex s = Inr upd \<Longrightarrow> cycle_count upd = cycle_count s"
  by (auto simp: tool_node_def thenE_Inr_iff)

lemma update_state_count:
  "update_state_from_messages s = Inr upd \<Longrightarrow> cycle_count upd = cycle_count s"
  using update_state_result [of s] update_state_empty [of s]
  by (cases "messages s = []") auto

lemma merge_update_count [simp]: "cycle_count (merge_update s upd) = cycle_count upd"
  by (simp add: merge_update_def)

lemma graph_step_count:
  assumes "graph_step env (n, s) = Inr (n', s')"
  shows "cycle_count s' = cycle_count s + (if n = ORCHESTRATING then 1 else 0)"
proof (cases n)
  case ORCHESTRATING
  with assms show ?thesis
    by (auto simp: thenE_Inr_iff Let_def dest: orchestrator_node_count)
next
  case TOOLS
  with assms show ?thesis by (auto simp: thenE_Inr_iff dest: tool_node_count)
next
  case UPDATING
  with assms show ?thesis by (auto simp: thenE_Inr_iff dest: update_state_count)
next
  case DONE
  with assms show ?thesis by simp
qed

lemma run_graph_hd: "run_graph env fuel c = Inr tr \<Longrightarrow> \<exists>tl. tr = c # tl"
  by (cases fuel) (auto simp: thenE_Inr_iff split: if_splits)

lemma run_graph_counts: "run_graph env fuel c = Inr tr \<Longrightarrow> counts_ok tr"
proof (induction fuel arbitrary: c tr)
  case 0
  then show ?case by auto
next
  case (Suc fuel)
  show ?case
  proof (cases "fst c = DONE")
    case True
    with Suc.prems show ?thesis by auto
  next
    case False
    with Suc.prems obtain c' tr' where
      st: "graph_step env c = Inr c'" and run: "run_graph env fuel c' = Inr tr'"
      and tr: "tr = c # tr'"
      by (auto simp: thenE_Inr_iff)
    from run obtain tl where tl: "tr' = c' # tl" using run_graph_hd by blast
    from st have "cycle_count (snd c') =
        cycle_count (snd c) + (if fst c = ORCHESTRATING then 1 else 0)"
      using graph_step_count [of env "fst c" "snd c" "fst c'" "snd c'"] by simp
    moreover have "counts_ok tr'" using Suc.IH [OF run] .
    ultimately show ?thesis using tr tl by simp
  qed
qed

text \<open>
  C6: the count is 0 in the initial state; the orchestrator's update carries the count
  plus one, whatever the response holds; the updates of the tool node and of the state
  extractor carry the count unchanged; and along every run from the initial state the
  count grows by one after each orchestrator step and by nothing after the others.
\<close>

theorem cycle_count_steps:
  "cycle_count (initial_state uuid h) = 0
   \<and> (\<forall>upd. orchestrator_node (system_prompt env) (llm_invoke env) s = Inr upd \<longrightarrow>
         cycle_count (merge_update s upd) = cycle_count s + 1)
   \<and> (\<forall>upd. tool_node (tool_executor_invoke env) s = Inr upd \<longrightarrow>
         cycle_count (merge_update s upd) = cycle_count s)
   \<and> (\<forall>upd. update_state_from_messages s = Inr upd \<longrightarrow>
         cycle_count (merge_update s upd) = cycle_count s)
   \<and> (\<forall>tr. run_graph env fuel (ORCHESTRATING, initial_state uuid h) = Inr tr \<longrightarrow>
         counts_ok tr)"
  by (auto simp: initial_state_def orchestrator_node_count tool_node_count
        update_state_count run_graph_counts)

text \<open>
  Witness for C6: three steps of a run whose model answers without tool calls.
\<close>

theorem cycle_count_steps_witness:
  "run_graph echo_env 3 (ORCHESTRATING, initial_state ''u'' ''h'') =
     Inr (projr (run_graph echo_env 3 (ORCHESTRATING, initial_state ''u'' ''h'')))
   \<and> counts_ok (projr (run_graph echo_env 3 (ORCHESTRATING, initial_state ''u'' ''h'')))
   \<and> map (\<lambda>c. (fst c, cycle_count (snd c)))
        (projr (run_graph echo_env 3 (ORCHESTRATING, initial_state ''u'' ''h''))) =
      [(ORCHESTRATING, 0), (UPDATING, 1), (ORCHESTRATING, 1), (UPDATING, 2)]"
proof -
  let ?r = "run_graph echo_env 3 (ORCHESTRATING, initial_state ''u'' ''h'')"
  have h: "?r = Inr (projr ?r)" by code_simp
  have m: "map (\<lambda>c. (fst c, cycle_count (snd c))) (projr ?r) =
      [(ORCHESTRATING, 0), (UPDATING, 1), (ORCHESTRATING, 1), (UPDATING, 2)]"
    by code_simp
  from cycle_count_steps [of "''u''" "''h''" echo_env "initial_state ''u'' ''h''" 3] h
  have "counts_ok (projr ?r)" by blast
  with h m show ?thesis by blast
qed

section \<open>Properties of the evaluation engine\<close>

subsection \<open>Labels and split\<close>











lemma slice_from_nonneg: "0 \<le> k \<Longrightarrow> slice_from k xs = drop (nat k) xs"
  by (simp add: slice_from_def slice_pos_def)






text \<open>
  C1: on a path that stays at 100 for the whole horizon of 48, with stop-loss 3% and
  take-profit 6%, the label at the first index is 1.
\<close>

theorem flat_path_label:
  "triple_barrier_label flat_path (3 / 100) (6 / 100) 48 = Inr [(0, 1)]"
  by code_simp








text \<open>
  When neither barrier is touched within the horizon, both \<open>idxmax\<close> calls return the
  first label of the window, the comparison of the two holds, and the label is 1.
\<close>

lemma idxmax_none:
  assumes "bs \<noteq> []" and "\<forall>b \<in> set bs. \<not> snd b"
  shows "idxmax bs = Inr (fst (hd bs))"
proof -
  have "find snd bs = None" using assms(2) by (auto simp: find_None_iff)
  with assms(1) show ?thesis by (simp add: idxmax_def)
qed

lemma label_at_untouched:
  assumes "i + h < length close" and "0 < h"
    and "\<forall>p \<in> set (take h (drop (i + 1) close)).
           \<not> cell_ge (snd p) (cell_times (snd (close ! i)) (1 + tp))
           \<and> \<not> cell_le (snd p) (cell_times (snd (close ! i)) (1 - sl))"
  shows "label_at close sl tp h i = Inr 1"
proof -
  let ?future = "take h (drop (i + 1) close)"
  let ?up = "map (\<lambda>(t, v). (t, cell_ge v (cell_times (snd (close ! i)) (1 + tp)))) ?future"
  let ?down = "map (\<lambda>(t, v). (t, cell_le v (cell_times (snd (close ! i)) (1 - sl)))) ?future"
  have ne: "?future \<noteq> []" using assms(1,2) by simp
  have "idxmax ?up = Inr (fst (hd ?up))"
    using ne assms(3) by (intro idxmax_none) (auto simp: case_prod_beta)
  moreover have "idxmax ?down = Inr (fst (hd ?down))"
    using ne assms(3) by (intro idxmax_none) (auto simp: case_prod_beta)
  moreover have "fst (hd ?up) = fst (hd ?future)" and "fst (hd ?down) = fst (hd ?future)"
    using ne by (simp_all add: hd_map case_prod_beta)
  moreover have "i < length close" using assms(1) by simp
  ultimately show ?thesis
    by (simp add: label_at_def py_index_def Let_def truthy_def)
qed

subsection \<open>Aggregation and verdict\<close>

lemma aggregate_results_Inr:
  assumes "aggregate_results lib config results = Inr r"
  obtains st where "results \<noteq> []"
    and "from_signals lib (in_sample_call (hd results)) = Inr st"
    and "sharpe_ratio r = mean (map (\<lambda>x. pf_sharpe_ratio (pf_stats (r_pf x))) results)"
    and "max_drawdown r = mean (map (\<lambda>x. pf_max_drawdown (pf_stats (r_pf x))) results)"
    and "overfitting_score r = \<bar>sharpe_ratio r - pf_sharpe_ratio st\<bar>"
    and "verdict r =
      fst (decide (fmt2 lib) (sharpe_ratio r) (max_drawdown r) (overfitting_score r))"
proof -
  from assms have ne: "results \<noteq> []"
    by (auto simp: aggregate_results_def Let_def py_index_def split: if_splits)
  then have hd: "py_index results 0 = Inr (hd results)"
    by (simp add: py_index_def hd_conv_nth)
  from assms hd obtain sv where
    sv: "shap_importance lib (r_model (hd results)) (r_X_test (hd results)) = Inr sv"
    by (cases "shap_importance lib (r_model (hd results)) (r_X_test (hd results))")
       (auto simp: aggregate_results_def Let_def)
  from assms hd sv obtain st where
    st: "from_signals lib (in_sample_call (hd results)) = Inr st"
    by (cases "from_signals lib (in_sample_call (hd results))")
       (auto simp: aggregate_results_def Let_def)
  from assms hd sv st have
    "sharpe_ratio r = mean (map (\<lambda>x. pf_sharpe_ratio (pf_stats (r_pf x))) results)"
    "max_drawdown r = mean (map (\<lambda>x. pf_max_drawdown (pf_stats (r_pf x))) results)"
    "overfitting_score r = \<bar>sharpe_ratio r - pf_sharpe_ratio st\<bar>"
    "verdict r =
      fst (decide (fmt2 lib) (sharpe_ratio r) (max_drawdown r) (overfitting_score r))"
    by (auto simp: aggregate_results_def Let_def comp_def split: prod.splits)
  with ne st show ?thesis using that by blast
qed

text \<open>
  C2, as the code has it: the two aggregate figures are the means over the assets, and
  the verdict is \<open>promote\<close> exactly when the aggregate Sharpe is above 1.5, the
  aggregate drawdown is strictly above -0.12 and the overfitting score is below 0.5;
  otherwise \<open>iterate\<close> exactly when the aggregate Sharpe is above 0.8; otherwise
  \<open>discard\<close>.
\<close>

theorem verdict_policy:
  assumes "aggregate_results lib config results = Inr r"
  shows "sharpe_ratio r = mean (map (\<lambda>x. pf_sharpe_ratio (pf_stats (r_pf x))) results)
    \<and> max_drawdown r = mean (map (\<lambda>x. pf_max_drawdown (pf_stats (r_pf x))) results)
    \<and> ((verdict r = promote) =
         (15 / 10 < sharpe_ratio r \<and> - (12 / 100) < max_drawdown r
          \<and> overfitting_score r < 5 / 10))
    \<and> ((verdict r = iterate) =
         (\<not> (15 / 10 < sharpe_ratio r \<and> - (12 / 100) < max_drawdown r
             \<and> overfitting_score r < 5 / 10)
          \<and> 8 / 10 < sharpe_ratio r))
    \<and> ((verdict r = discard) =
         (\<not> (15 / 10 < sharpe_ratio r \<and> - (12 / 100) < max_drawdown r
             \<and> overfitting_score r < 5 / 10)
          \<and> \<not> 8 / 10 < sharpe_ratio r))"
proof -
  from assms obtain st where
    s: "sharpe_ratio r = mean (map (\<lambda>x. pf_sharpe_ratio (pf_stats (r_pf x))) results)"
    and d: "max_drawdown r = mean (map (\<lambda>x. pf_max_drawdown (pf_stats (r_pf x))) results)"
    and v: "verdict r =
      fst (decide (fmt2 lib) (sharpe_ratio r) (max_drawdown r) (overfitting_score r))"
    by (rule aggregate_results_Inr)
  show ?thesis unfolding v using s d by (simp add: decide_def)
qed

lemma loc_index: "loc s ts = Inr vs \<Longrightarrow> map fst vs = ts"
  by (induction ts arbitrary: vs) (auto simp: thenE_Inr_iff split: option.splits)

lemma evaluate_asset_Inr:
  assumes "evaluate_asset fd lib config asset = Inr r0"
  shows "map fst (pf_close (r_pf r0)) = index (r_X_test r0)"
    and "sc_sl_stop (pf_call (r_pf r0)) = Some (stop_loss_pct config)"
    and "sc_tp_stop (pf_call (r_pf r0)) = Some (take_profit_pct config)"
  using assms
  by (auto simp: evaluate_asset_def thenE_Inr_iff Let_def walk_forward_split_def pf_close_def
      index_def dest!: loc_index split: prod.splits)

lemma evaluate_assets_hd:
  assumes "evaluate_assets fd lib config as = Inr rs" and "rs \<noteq> []"
  shows "\<exists>a. a \<in> set as \<and> evaluate_asset fd lib config a = Inr (hd rs)"
  using assms by (cases as) (auto simp: thenE_Inr_iff)


text \<open>
  What \<^verbatim>\<open>_aggregate_results\<close> computes: the absolute difference between the held-out
  aggregate Sharpe and the Sharpe of the portfolio that the simulator returns for the
  call of \<^const>\<open>in_sample_call\<close>. That call is given the close prices of the first
  asset's held-out portfolio under signals over the first asset's training index, and
  neither stop-loss nor take-profit.
\<close>

lemma overfitting_score_computed:
  assumes "run_backtest fd lib config = Inr r"
  shows "\<exists>r0 rs st.
      evaluate_assets fd lib config (assets config) = Inr (r0 # rs)
    \<and> from_signals lib (in_sample_call r0) = Inr st
    \<and> overfitting_score r = \<bar>sharpe_ratio r - pf_sharpe_ratio st\<bar>
    \<and> sharpe_ratio r = mean (map (\<lambda>x. pf_sharpe_ratio (pf_stats (r_pf x))) (r0 # rs))
    \<and> sc_close (in_sample_call r0) = pf_close (r_pf r0)
    \<and> map fst (sc_close (in_sample_call r0)) = index (r_X_test r0)
    \<and> sc_entries (in_sample_call r0) = map (\<lambda>t. (t, True)) (index (r_X_train r0))
    \<and> sc_exits (in_sample_call r0) = map (\<lambda>t. (t, False)) (index (r_X_train r0))
    \<and> sc_fees (in_sample_call r0) = Some FEES
    \<and> sc_slippage (in_sample_call r0) = None
    \<and> sc_init_cash (in_sample_call r0) = None
    \<and> sc_sl_stop (in_sample_call r0) = None
    \<and> sc_tp_stop (in_sample_call r0) = None"
proof -
  from assms obtain results where ev: "evaluate_assets fd lib config (assets config) = Inr results"
    and ag: "aggregate_results lib config results = Inr r"
    by (auto simp: run_backtest_def thenE_Inr_iff)
  from ag obtain st where ne: "results \<noteq> []"
    and st: "from_signals lib (in_sample_call (hd results)) = Inr st"
    and s: "sharpe_ratio r = mean (map (\<lambda>x. pf_sharpe_ratio (pf_stats (r_pf x))) results)"
    and ov: "overfitting_score r = \<bar>sharpe_ratio r - pf_sharpe_ratio st\<bar>"
    by (rule aggregate_results_Inr)
  from ne obtain r0 rs where res: "results = r0 # rs" by (cases results) auto
  from evaluate_assets_hd [OF ev ne] res obtain a
    where "evaluate_asset fd lib config a = Inr r0" by auto
  then have "map fst (pf_close (r_pf r0)) = index (r_X_test r0)"
    by (rule evaluate_asset_Inr(1))
  then have "map fst (sc_close (in_sample_call r0)) = index (r_X_test r0)"
    by (simp add: in_sample_call_def)
  with ev st s ov res show ?thesis
    by (intro exI [of _ r0] exI [of _ rs] exI [of _ st]) (simp add: in_sample_call_def)
qed

text \<open>
  The example run: one asset, held-out Sharpe 1.6 and drawdown -0.12, in-sample
  Sharpe 1.3.
\<close>

lemma ex_run_figures:
  "map_sum id figures (run_backtest ex_feed ex_lib ex_config) =
     Inr (16 / 10, - (12 / 100), 3 / 10, iterate)"
  by code_simp

lemma ex_run_Inr:
  obtains r where "run_backtest ex_feed ex_lib ex_config = Inr r"
    and "figures r = (16 / 10, - (12 / 100), 3 / 10, iterate)"
  using ex_run_figures by (cases "run_backtest ex_feed ex_lib ex_config") auto

text \<open>The example run has overfitting score 0.3.\<close>

lemma overfitting_score_example:
  "\<exists>r r0 rs st. run_backtest ex_feed ex_lib ex_config = Inr r
     \<and> evaluate_assets ex_feed ex_lib ex_config (assets ex_config) = Inr (r0 # rs)
     \<and> from_signals ex_lib (in_sample_call r0) = Inr st
     \<and> overfitting_score r = \<bar>sharpe_ratio r - pf_sharpe_ratio st\<bar>
     \<and> overfitting_score r = 3 / 10
     \<and> sc_sl_stop (in_sample_call r0) = None"
proof -
  obtain r where r: "run_backtest ex_feed ex_lib ex_config = Inr r"
    and f: "figures r = (16 / 10, - (12 / 100), 3 / 10, iterate)"
    by (rule ex_run_Inr)
  from f have "overfitting_score r = 3 / 10" by (simp add: figures_def)
  with overfitting_score_computed [OF r] r show ?thesis by blast
qed

text \<open>Witness for C2: the example run, whose verdict is \<open>iterate\<close>.\<close>

theorem verdict_policy_witness:
  "\<exists>results r. evaluate_assets ex_feed ex_lib ex_config (assets ex_config) = Inr results
     \<and> aggregate_results ex_lib ex_config results = Inr r
     \<and> sharpe_ratio r = 16 / 10 \<and> max_drawdown r = - (12 / 100)
     \<and> overfitting_score r = 3 / 10 \<and> verdict r = iterate \<and> verdict r \<noteq> promote"
proof -
  obtain r where r: "run_backtest ex_feed ex_lib ex_config = Inr r"
    and f: "figures r = (16 / 10, - (12 / 100), 3 / 10, iterate)"
    by (rule ex_run_Inr)
  from r obtain results where
    ev: "evaluate_assets ex_feed ex_lib ex_config (assets ex_config) = Inr results"
    and ag: "aggregate_results ex_lib ex_config results = Inr r"
    by (auto simp: run_backtest_def thenE_Inr_iff)
  from f have v: "sharpe_ratio r = 16 / 10" "max_drawdown r = - (12 / 100)"
    "overfitting_score r = 3 / 10"
    by (simp_all add: figures_def)
  from verdict_policy [OF ag] v have "verdict r = iterate" "verdict r \<noteq> promote"
    by simp_all
  with ev ag v show ?thesis by blast
qed

text \<open>
  C2 as stated fails: with Sharpe 1.6, overfitting score 0.3 and a drawdown of exactly
  -0.12 the verdict is \<open>iterate\<close>, not \<open>promote\<close>.
\<close>

theorem drawdown_boundary_not_promoted:
  "map_sum id figures (run_backtest ex_feed ex_lib ex_config) =
     Inr (16 / 10, - (12 / 100), 3 / 10, iterate)
   \<and> (15 / 10 :: real) < 16 / 10 \<and> - (12 / 100 :: real) \<le> - (12 / 100)
   \<and> (3 / 10 :: real) < 5 / 10"
  using ex_run_figures by simp

text \<open>
  The in-sample call of the example run: its signals are over the training timestamps
  1 to 35, its close prices are those of the held-out timestamps 36 to 50, and it has
  no stop-loss and no take-profit.
\<close>

lemma ex_run_periods:
  "map_sum id
     (map (\<lambda>x. (map fst (sc_entries (in_sample_call x)), map fst (sc_close (in_sample_call x)),
                sc_sl_stop (in_sample_call x), sc_tp_stop (in_sample_call x))))
     (evaluate_assets ex_feed ex_lib ex_config (assets ex_config)) =
   Inr [(map fst ex_train_close, map int [36 ..< 51], None, None)]"
  by code_simp

text \<open>
  C4: the overfitting score is not the difference to an in-sample Sharpe simulated with
  the strategy's hard exits over the training prices. In the example run (stop-loss 3%,
  take-profit 6%, training timestamps 1 to 35) the simulator is called for the
  in-sample portfolio with the close prices of the held-out timestamps 36 to 50 and
  without stop-loss or take-profit, and the score is 0.3; the simulation that the claim
  describes has Sharpe 1.6 with this simulator, as the held-out one has, which gives a
  score of 0.
\<close>

theorem in_sample_call_differs:
  "map_sum id figures (run_backtest ex_feed ex_lib ex_config) =
     Inr (16 / 10, - (12 / 100), 3 / 10, iterate)
   \<and> map_sum id
       (map (\<lambda>x. (map fst (sc_entries (in_sample_call x)),
                  map fst (sc_close (in_sample_call x)),
                  sc_sl_stop (in_sample_call x), sc_tp_stop (in_sample_call x))))
       (evaluate_assets ex_feed ex_lib ex_config (assets ex_config)) =
     Inr [(map fst ex_train_close, map int [36 ..< 51], None, None)]
   \<and> stop_loss_pct ex_config = 3 / 100 \<and> take_profit_pct ex_config = 6 / 100
   \<and> map_sum id pf_sharpe_ratio
       (from_signals ex_lib (spec_in_sample_call ex_config ex_train_close)) = Inr (16 / 10)
   \<and> \<bar>16 / 10 - 16 / 10\<bar> \<noteq> (3 / 10 :: real)"
proof -
  have "map_sum id pf_sharpe_ratio
       (from_signals ex_lib (spec_in_sample_call ex_config ex_train_close)) = Inr (16 / 10)"
    by (simp add: ex_lib_def spec_in_sample_call_def ex_stats_def)
  moreover have "stop_loss_pct ex_config = 3 / 100" "take_profit_pct ex_config = 6 / 100"
    by (simp_all add: ex_config_def)
  ultimately show ?thesis using ex_run_figures ex_run_periods by simp
qed

subsection \<open>Data failures\<close>

lemma fetch_no_data:
  assumes "all_candles fd a tf lb = Inr []"
  shows "fetch_ohlcv fd a tf lb = Inl (ValueError (''No data returned for '' @ a @ '' '' @ tf))"
  using assms by (simp add: fetch_ohlcv_def)

lemma add_features_unknown:
  assumes "\<exists>f \<in> set names. f \<notin> set FEATURE_REGISTRY"
  shows "\<exists>f \<in> set names. f \<notin> set FEATURE_REGISTRY
     \<and> add_features ind df result names =
         Inl (ValueError (''Unknown feature: '' @ f @ ''. Available: ''
                @ str_list FEATURE_REGISTRY))"
  using assms
proof (induction names arbitrary: result)
  case Nil
  then show ?case by simp
next
  case (Cons n names)
  show ?case
  proof (cases "n \<in> set FEATURE_REGISTRY")
    case True
    with Cons.prems have "\<exists>f \<in> set names. f \<notin> set FEATURE_REGISTRY" by auto
    from Cons.IH [OF this, of "set_col result n (ind n df)"] True show ?thesis by auto
  next
    case False
    then show ?thesis by auto
  qed
qed

lemma evaluate_asset_no_data:
  assumes "all_candles fd a (timeframe config) (lookback_days config) = Inr []"
  shows "evaluate_asset fd lib config a =
     Inl (ValueError (''No data returned for '' @ a @ '' '' @ timeframe config))"
  using fetch_no_data [OF assms] by (simp add: evaluate_asset_def)

lemma evaluate_asset_unknown_feature:
  assumes "\<exists>f \<in> set (features config). f \<notin> set FEATURE_REGISTRY"
    and "fetch_ohlcv fd a (timeframe config) (lookback_days config) = Inr df"
  shows "\<exists>f \<in> set (features config). f \<notin> set FEATURE_REGISTRY
     \<and> evaluate_asset fd lib config a =
         Inl (ValueError (''Unknown feature: '' @ f @ ''. Available: ''
                @ str_list FEATURE_REGISTRY))"
proof -
  from add_features_unknown [OF assms(1), of "indicator lib" df df] obtain f
    where f: "f \<in> set (features config)" "f \<notin> set FEATURE_REGISTRY"
      and a: "add_features (indicator lib) df df (features config) =
         Inl (ValueError (''Unknown feature: '' @ f @ ''. Available: ''
                @ str_list FEATURE_REGISTRY))"
    by blast
  from a assms(2) have "evaluate_asset fd lib config a =
         Inl (ValueError (''Unknown feature: '' @ f @ ''. Available: ''
                @ str_list FEATURE_REGISTRY))"
    by (simp add: evaluate_asset_def compute_features_def)
  with f show ?thesis by blast
qed

lemma evaluate_asset_data_failure:
  assumes "all_candles fd a (timeframe config) (lookback_days config) = Inr []
     \<or> (\<exists>f \<in> set (features config). f \<notin> set FEATURE_REGISTRY)"
  shows "\<exists>e. evaluate_asset fd lib config a = Inl e"
proof (cases "fetch_ohlcv fd a (timeframe config) (lookback_days config)")
  case (Inl e)
  then show ?thesis by (simp add: evaluate_asset_def)
next
  case (Inr df)
  with assms fetch_no_data [of fd a "timeframe config" "lookback_days config"]
  have "\<exists>f \<in> set (features config). f \<notin> set FEATURE_REGISTRY" by auto
  from evaluate_asset_unknown_feature [OF this Inr] show ?thesis by blast
qed

lemma evaluate_assets_failure:
  assumes "a \<in> set as" and "evaluate_asset fd lib config a = Inl e"
  shows "\<exists>e' b. b \<in> set as \<and> evaluate_asset fd lib config b = Inl e'
     \<and> evaluate_assets fd lib config as = Inl e'"
  using assms(1)
proof (induction as)
  case Nil
  then show ?case by simp
next
  case (Cons x xs)
  show ?case
  proof (cases "evaluate_asset fd lib config x")
    case (Inl e')
    then show ?thesis by auto
  next
    case (Inr r)
    with Cons.prems assms(2) have "a \<in> set xs" by auto
    from Cons.IH [OF this] obtain e' b where "b \<in> set xs"
      "evaluate_asset fd lib config b = Inl e'" "evaluate_assets fd lib config xs = Inl e'"
      by blast
    with Inr show ?thesis by auto
  qed
qed

text \<open>
  C8: when some configured asset has no data, or some requested feature name is not in
  the registry, \<^verbatim>\<open>run_backtest\<close> returns no result: it fails with the error of one
  asset's evaluation, passed on unchanged. For the asset without data that evaluation
  fails with the message naming the asset and the timeframe; for an asset whose data
  was fetched it fails with the message naming an unknown feature and listing the
  registry.
\<close>

theorem data_failure_fails_run:
  assumes "a \<in> set (assets config)"
    and "all_candles fd a (timeframe config) (lookback_days config) = Inr []
     \<or> (\<exists>f \<in> set (features config). f \<notin> set FEATURE_REGISTRY)"
  shows "(\<exists>e b. run_backtest fd lib config = Inl e
           \<and> b \<in> set (assets config) \<and> evaluate_asset fd lib config b = Inl e)
    \<and> (all_candles fd a (timeframe config) (lookback_days config) = Inr [] \<longrightarrow>
         evaluate_asset fd lib config a =
           Inl (ValueError (''No data returned for '' @ a @ '' '' @ timeframe config)))
    \<and> (\<forall>df. fetch_ohlcv fd a (timeframe config) (lookback_days config) = Inr df \<longrightarrow>
         (\<exists>f \<in> set (features config). f \<notin> set FEATURE_REGISTRY
           \<and> evaluate_asset fd lib config a =
               Inl (ValueError (''Unknown feature: '' @ f @ ''. Available: ''
                      @ str_list FEATURE_REGISTRY))))"
proof -
  obtain e where "evaluate_asset fd lib config a = Inl e"
    using evaluate_asset_data_failure [OF assms(2)] by blast
  from evaluate_assets_failure [OF assms(1) this] obtain e' b
    where b: "b \<in> set (assets config)" "evaluate_asset fd lib config b = Inl e'"
      and "evaluate_assets fd lib config (assets config) = Inl e'"
    by blast
  then have "run_backtest fd lib config = Inl e'" by (simp add: run_backtest_def)
  with b have 1: "\<exists>e b. run_backtest fd lib config = Inl e
           \<and> b \<in> set (assets config) \<and> evaluate_asset fd lib config b = Inl e"
    by blast
  have 2: "all_candles fd a (timeframe config) (lookback_days config) = Inr [] \<longrightarrow>
         evaluate_asset fd lib config a =
           Inl (ValueError (''No data returned for '' @ a @ '' '' @ timeframe config))"
    using evaluate_asset_no_data by blast
  have 3: "\<exists>f \<in> set (features config). f \<notin> set FEATURE_REGISTRY
           \<and> evaluate_asset fd lib config a =
               Inl (ValueError (''Unknown feature: '' @ f @ ''. Available: ''
                      @ str_list FEATURE_REGISTRY))"
    if "fetch_ohlcv fd a (timeframe config) (lookback_days config) = Inr df" for df
  proof -
    from that assms(2) fetch_no_data [of fd a "timeframe config" "lookback_days config"]
    have "\<exists>f \<in> set (features config). f \<notin> set FEATURE_REGISTRY" by auto
    from evaluate_asset_unknown_feature [OF this that] show ?thesis .
  qed
  from 1 2 3 show ?thesis by blast
qed

text \<open>
  The example with two assets: the first is evaluated to the end, the second has no
  data.
\<close>

lemma two_asset_run:
  "run_backtest ex_feed ex_lib two_asset_config =
     Inl (ValueError ''No data returned for ETH/USDT 1h'')"
  by code_simp

lemma first_asset_ok:
  "map_sum id (\<lambda>x. pf_sharpe_ratio (pf_stats (r_pf x)))
     (evaluate_asset ex_feed ex_lib two_asset_config ''BTC/USDT'') = Inr (16 / 10)"
  by code_simp

text \<open>Witness for C8.\<close>

theorem data_failure_fails_run_witness:
  "''ETH/USDT'' \<in> set (assets two_asset_config)
   \<and> all_candles ex_feed ''ETH/USDT'' (timeframe two_asset_config)
       (lookback_days two_asset_config) = Inr []
   \<and> map_sum id (\<lambda>x. pf_sharpe_ratio (pf_stats (r_pf x)))
       (evaluate_asset ex_feed ex_lib two_asset_config ''BTC/USDT'') = Inr (16 / 10)
   \<and> evaluate_asset ex_feed ex_lib two_asset_config ''ETH/USDT'' =
       Inl (ValueError ''No data returned for ETH/USDT 1h'')
   \<and> run_backtest ex_feed ex_lib two_asset_config =
       Inl (ValueError ''No data returned for ETH/USDT 1h'')"
proof -
  have a: "''ETH/USDT'' \<in> set (assets two_asset_config)"
    by (simp add: two_asset_config_def)
  have b: "all_candles ex_feed ''ETH/USDT'' (timeframe two_asset_config)
       (lookback_days two_asset_config) = Inr []"
    by (simp add: ex_feed_def)
  have "evaluate_asset ex_feed ex_lib two_asset_config ''ETH/USDT'' =
       Inl (ValueError ''No data returned for ETH/USDT 1h'')"
    using data_failure_fails_run [OF a disjI1 [OF b], of ex_lib] b
    by (simp add: two_asset_config_def ex_config_def)
  with a b two_asset_run first_asset_ok show ?thesis by simp
qed

end
